theory Spec2Isabelle
  imports Main "HOL-Library.Word"
begin

section \<open>JavaScript strings\<close>

text \<open>
  A JavaScript string is a sequence of UTF-16 code units. The listing form only inspects
  code units (white space, the digits \<open>0\<close>..\<open>9\<close>, the plus sign), so a string is modelled
  as a list of 16-bit words and every theorem below covers every string the form can hold.
\<close>

type_synonym code_unit = "16 word"
type_synonym jsstring = "code_unit list"

definition js :: "string \<Rightarrow> jsstring" where
  \<comment> \<open>an ASCII literal as a JavaScript string\<close>
  "js s = map of_char s"

definition plus_sign :: code_unit where
  "plus_sign = 0x2B"

definition digit_zero :: code_unit where
  "digit_zero = 0x30"

definition is_ws :: "code_unit \<Rightarrow> bool" where
  \<comment> \<open>ECMAScript WhiteSpace and LineTerminator, the code units \<open>String.prototype.trim\<close> removes\<close>
  "is_ws c =
     (c \<in> {0x9, 0xA, 0xB, 0xC, 0xD, 0x20, 0xA0, 0x1680, 0x2028, 0x2029, 0x202F, 0x205F,
            0x3000, 0xFEFF}
      \<or> (0x2000 \<le> c \<and> c \<le> 0x200A))"

definition is_digit :: "code_unit \<Rightarrow> bool" where
  \<comment> \<open>the complement of the regular expression class \<open>\D\<close> (no \<open>u\<close> flag): \<open>[0-9]\<close>\<close>
  "is_digit c = (0x30 \<le> c \<and> c \<le> 0x39)"

definition trim :: "jsstring \<Rightarrow> jsstring" where
  \<comment> \<open>\<open>s.trim()\<close>\<close>
  "trim s = rev (dropWhile is_ws (rev (dropWhile is_ws s)))"

fun startsWith :: "jsstring \<Rightarrow> jsstring \<Rightarrow> bool" where
  \<comment> \<open>\<open>s.startsWith(p)\<close>\<close>
  "startsWith s [] = True"
| "startsWith [] (p # ps) = False"
| "startsWith (c # cs) (p # ps) = (c = p \<and> startsWith cs ps)"

definition strip_non_digits :: "jsstring \<Rightarrow> jsstring" where
  \<comment> \<open>\<open>s.replace(/\D/g, '')\<close>: every code unit outside \<open>[0-9]\<close> is deleted\<close>
  "strip_non_digits s = filter is_digit s"

definition strip_leading_zeros :: "jsstring \<Rightarrow> jsstring" where
  \<comment> \<open>\<open>s.replace(/^0+/, '')\<close>: the longest run of zeros at the start is deleted\<close>
  "strip_leading_zeros s = dropWhile (\<lambda>c. c = digit_zero) s"

definition replace_first_plus :: "jsstring \<Rightarrow> jsstring" where
  \<comment> \<open>\<open>s.replace('+', '')\<close>: a string pattern replaces its first occurrence only\<close>
  "replace_first_plus s = remove1 plus_sign s"

section \<open>Phone normalization (SellItemModal.tsx)\<close>

definition countryCodes :: "jsstring list" where
  "countryCodes = [js ''+91'', js ''+1'', js ''+44'', js ''+61'', js ''+81'']"

definition normalizePhone :: "jsstring \<Rightarrow> jsstring \<Rightarrow> jsstring" where
  "normalizePhone countryCode rawPhone =
     (let trimmed = trim rawPhone in
      if trimmed = [] then []
      else if startsWith trimmed [plus_sign] then plus_sign # strip_non_digits trimmed
      else
        let digits = strip_leading_zeros (strip_non_digits trimmed);
            code = replace_first_plus countryCode
        in if startsWith digits code then plus_sign # digits
           else countryCode @ digits)"

text \<open>
  The algorithm as the specification words it, step by step:
  (1) trim, empty gives empty; (2) a trimmed value that starts with \<open>+\<close> keeps its digits
  behind a \<open>+\<close>; (3) otherwise the digits are kept and leading zeros dropped; (4) a digit
  string that starts with the country code's digits (the code with its leading \<open>+\<close>
  removed) gets a \<open>+\<close>; (5) otherwise the full country code is put in front.
\<close>

definition code_digits_spec :: "jsstring \<Rightarrow> jsstring" where
  \<comment> \<open>the code with its leading \<open>+\<close> removed\<close>
  "code_digits_spec countryCode =
     (case countryCode of
        [] \<Rightarrow> []
      | c # cs \<Rightarrow> if c = plus_sign then cs else c # cs)"

definition normalizePhone_spec :: "jsstring \<Rightarrow> jsstring \<Rightarrow> jsstring" where
  "normalizePhone_spec countryCode rawPhone =
     (case trim rawPhone of
        [] \<Rightarrow> []
      | c # cs \<Rightarrow>
          if c = plus_sign then plus_sign # filter is_digit cs
          else
            let digits = dropWhile (\<lambda>d. d = digit_zero) (filter is_digit (c # cs)) in
            if take (length (code_digits_spec countryCode)) digits = code_digits_spec countryCode
            then plus_sign # digits
            else countryCode @ digits)"

definition is_dial_code :: "jsstring \<Rightarrow> bool" where
  \<comment> \<open>the shape of every entry of \<open>countryCodes\<close>: a plus sign followed by digits\<close>
  "is_dial_code cc =
     (case cc of [] \<Rightarrow> False | c # ds \<Rightarrow> c = plus_sign \<and> list_all is_digit ds)"

section \<open>The listing form (SellItemModal.tsx)\<close>

record formData =
  title :: jsstring
  description :: jsstring
  category :: jsstring
  condition :: jsstring
  price :: jsstring
  imageUrl :: jsstring
  sellerName :: jsstring
  sellerPhone :: jsstring

record image_file =
  file_name :: jsstring
  file_type :: jsstring

record sell_state =
  step :: int
  loading :: bool
  imageFile :: "image_file option"
  countryCode :: jsstring
  formData :: formData

definition initial_formData :: formData where
  "initial_formData =
     \<lparr>title = [], description = [], category = js ''Books'', condition = js ''Used'',
      price = [], imageUrl = [], sellerName = [], sellerPhone = []\<rparr>"

definition initial_state :: sell_state where
  "initial_state =
     \<lparr>step = 1, loading = False, imageFile = None, countryCode = js ''+91'',
      formData = initial_formData\<rparr>"

text \<open>
  Values of the object literals sent to the store. Floating point is not modelled: a
  number is kept as the expression that produces it.
\<close>

datatype jsvalue =
    Str jsstring
  | ParseFloat jsstring \<comment> \<open>the number \<open>parseFloat(s)\<close>\<close>
  | NumberOf jsstring \<comment> \<open>the number \<open>Number(s)\<close>\<close>

type_synonym jsobject = "(string \<times> jsvalue) list"

datatype js_error =
    Error jsstring \<comment> \<open>an \<open>Error\<close> instance and its message\<close>
  | Thrown \<comment> \<open>any other thrown or returned error value\<close>

text \<open>
  What a submission receives from outside the component: the clock and random source
  behind the upload key, the case mapping of the runtime, the object store and the
  table's insert endpoint. An error of the insert endpoint stands for a returned
  \<open>error\<close> as well as for a rejected promise: both reach the same \<open>catch\<close>.
\<close>

record world =
  stamp :: jsstring
  toLowerCase :: "jsstring \<Rightarrow> jsstring"
  upload :: "jsstring \<Rightarrow> image_file \<Rightarrow> jsstring option"
  getPublicUrl :: "jsstring \<Rightarrow> jsstring"
  insert_products :: "jsobject \<Rightarrow> js_error option"

definition truthy :: "jsstring \<Rightarrow> bool" where
  "truthy s = (s \<noteq> [])"

definition last_segment :: "jsstring \<Rightarrow> jsstring" where
  \<comment> \<open>\<open>name.split('.').pop()\<close>\<close>
  "last_segment name = rev (takeWhile (\<lambda>c. c \<noteq> 0x2E) (rev name))"

definition upload_key :: "world \<Rightarrow> image_file \<Rightarrow> jsstring" where
  "upload_key w f =
     (let lowered = toLowerCase w (last_segment (file_name f));
          extension = (if truthy lowered then lowered else js ''jpg'')
      in stamp w @ js ''.'' @ extension)"

definition bucket_hint :: jsstring where
  "bucket_hint =
     js ''. Create a public bucket named '' @ [0x22] @ js ''product-images'' @ [0x22]
       @ js '' in Supabase Storage.''"

definition resolve_image :: "world \<Rightarrow> sell_state \<Rightarrow> js_error + jsstring" where
  "resolve_image w s =
     (case imageFile s of
        None \<Rightarrow> Inr (trim (imageUrl (formData s)))
      | Some f \<Rightarrow>
          (case upload w (upload_key w f) f of
             Some message \<Rightarrow> Inl (Error (message @ bucket_hint))
           | None \<Rightarrow> Inr (getPublicUrl w (upload_key w f))))"

definition insert_row :: "sell_state \<Rightarrow> jsstring \<Rightarrow> jsobject" where
  "insert_row s url =
     [(''title'', Str (title (formData s))),
      (''description'', Str (description (formData s))),
      (''category'', Str (category (formData s))),
      (''condition'', Str (condition (formData s))),
      (''price'', ParseFloat (price (formData s))),
      (''image_url'', Str (if truthy url then url else [])),
      (''seller_name'', Str (sellerName (formData s))),
      (''seller_phone'', Str (normalizePhone (countryCode s) (sellerPhone (formData s))))]"

definition submit :: "world \<Rightarrow> sell_state \<Rightarrow> js_error + jsobject" where
  \<comment> \<open>the \<open>try\<close> block up to \<open>if (error) throw error\<close>\<close>
  "submit w s =
     (case resolve_image w s of
        Inl e \<Rightarrow> Inl e
      | Inr url \<Rightarrow>
          (case insert_products w (insert_row s url) of
             Some e \<Rightarrow> Inl e
           | None \<Rightarrow> Inr (insert_row s url)))"

record submit_result =
  next_state :: sell_state
  alerts :: "jsstring list"
  stored :: "jsobject option"
  onSuccess_called :: bool
  onClose_called :: bool

definition alert_text :: "js_error \<Rightarrow> jsstring" where
  "alert_text e =
     (case e of
        Error message \<Rightarrow> message
      | Thrown \<Rightarrow> js ''Failed to create product. Please try again.'')"

definition handleSubmit :: "world \<Rightarrow> sell_state \<Rightarrow> submit_result" where
  "handleSubmit w s =
     (case submit w s of
        Inr row \<Rightarrow>
          \<lparr>next_state =
             \<lparr>step = 1, loading = False, imageFile = None, countryCode = js ''+91'',
              formData = initial_formData\<rparr>,
           alerts = [], stored = Some row, onSuccess_called = True, onClose_called = True\<rparr>
      | Inl e \<Rightarrow>
          \<lparr>next_state = s\<lparr>loading := False\<rparr>,
           alerts = [alert_text e], stored = None, onSuccess_called = False,
           onClose_called = False\<rparr>)"

subsection \<open>Step navigation\<close>

definition canProceedStep1 :: "sell_state \<Rightarrow> bool" where
  "canProceedStep1 s =
     (truthy (title (formData s)) \<and> truthy (description (formData s))
      \<and> truthy (category (formData s)))"

definition canProceedStep2 :: "sell_state \<Rightarrow> bool" where
  "canProceedStep2 s = (truthy (price (formData s)) \<and> truthy (condition (formData s)))"

definition canProceedStep3 :: "sell_state \<Rightarrow> bool" where
  "canProceedStep3 s = (truthy (sellerName (formData s)) \<and> truthy (sellerPhone (formData s)))"

definition click_back :: "sell_state \<Rightarrow> sell_state" where
  \<comment> \<open>the Back button is rendered when \<open>step > 1\<close> and is never disabled\<close>
  "click_back s = (if step s > 1 then s\<lparr>step := step s - 1\<rparr> else s)"

definition next_disabled :: "sell_state \<Rightarrow> bool" where
  "next_disabled s =
     ((step s = 1 \<and> \<not> canProceedStep1 s) \<or> (step s = 2 \<and> \<not> canProceedStep2 s))"

definition click_next :: "sell_state \<Rightarrow> sell_state" where
  \<comment> \<open>the Next button is rendered when \<open>step < 3\<close>; a disabled button fires no click\<close>
  "click_next s =
     (if step s < 3 then (if next_disabled s then s else s\<lparr>step := step s + 1\<rparr>) else s)"

definition publish_disabled :: "sell_state \<Rightarrow> bool" where
  "publish_disabled s = (\<not> canProceedStep3 s \<or> loading s)"

definition click_publish :: "world \<Rightarrow> sell_state \<Rightarrow> submit_result option" where
  \<comment> \<open>the Publish button replaces Next on step 3; \<open>None\<close>: no button, or a disabled one\<close>
  "click_publish w s =
     (if step s < 3 then None
      else if publish_disabled s then None
      else Some (handleSubmit w s))"

definition blur_sellerPhone :: "sell_state \<Rightarrow> sell_state" where
  \<comment> \<open>\<open>onBlur\<close> of the phone input\<close>
  "blur_sellerPhone s =
     s\<lparr>formData := (formData s)
          \<lparr>sellerPhone := normalizePhone (countryCode s) (sellerPhone (formData s))\<rparr>\<rparr>"

section \<open>The edit form (EditItemModal.tsx)\<close>

definition update_payload :: "formData \<Rightarrow> jsobject" where
  "update_payload fd =
     [(''title'', Str (title fd)),
      (''description'', Str (description fd)),
      (''category'', Str (category fd)),
      (''condition'', Str (condition fd)),
      (''price'', NumberOf (price fd)),
      (''image_url'', Str (imageUrl fd)),
      (''seller_name'', Str (sellerName fd)),
      (''seller_phone'', Str (sellerPhone fd))]"

record edit_state =
  saving :: bool
  edit_formData :: formData

record save_result =
  edit_next_state :: edit_state
  edit_alerts :: "jsstring list"
  updated :: "jsobject option"
  edit_onSuccess_called :: bool
  edit_onClose_called :: bool

definition handleSave :: "(jsobject \<Rightarrow> js_error option) \<Rightarrow> edit_state \<Rightarrow> save_result" where
  \<comment> \<open>the first argument is \<open>supabase.from('products').update(payload).eq('id', product.id)\<close>\<close>
  "handleSave update_products s =
     (case update_products (update_payload (edit_formData s)) of
        None \<Rightarrow>
          \<lparr>edit_next_state = s\<lparr>saving := False\<rparr>, edit_alerts = [],
           updated = Some (update_payload (edit_formData s)),
           edit_onSuccess_called = True, edit_onClose_called = True\<rparr>
      | Some e \<Rightarrow>
          \<lparr>edit_next_state = s\<lparr>saving := False\<rparr>,
           edit_alerts =
             [case e of Error message \<Rightarrow> message | Thrown \<Rightarrow> js ''Failed to update listing''],
           updated = None, edit_onSuccess_called = False, edit_onClose_called = False\<rparr>)"

section \<open>Row-level security of the products table (supabase/migrations)\<close>

text \<open>
  The two migrations are lists of statements run in the order of their timestamps. Only
  what decides row-level security is kept: whether it is enabled and which policies
  exist. The policies of this repository use two expressions, \<open>true\<close> and
  \<open>owner_id = auth.uid()\<close>, and read no column but \<open>owner_id\<close>.

  A caller is a database role of the API (\<open>anon\<close> for a request without a session,
  \<open>authenticated\<close> for one with a session) and the value of \<open>auth.uid()\<close>, which is
  NULL when the request carries no user.
\<close>

type_synonym uuid = "128 word"

datatype db_role = anon | authenticated

record caller =
  caller_role :: db_role
  auth_uid :: "uuid option"

record product_row =
  owner_id :: "uuid option"

datatype command = SELECT | INSERT | UPDATE | DELETE

datatype policy_for = FOR command | FOR_ALL

datatype grantee = PUBLIC | TO db_role

datatype expr = TRUE | OWNER_ID_EQ_AUTH_UID

record policy =
  policy_name :: string
  policy_for :: policy_for
  policy_to :: grantee
  using_expr :: "expr option"
  with_check :: "expr option"

datatype statement =
    DDL \<comment> \<open>\<open>CREATE TABLE IF NOT EXISTS\<close>, \<open>ALTER TABLE ADD COLUMN IF NOT EXISTS\<close>\<close>
  | ENABLE_ROW_LEVEL_SECURITY
  | CREATE_POLICY policy
  | DROP_POLICY_IF_EXISTS string

record table =
  rls_enabled :: bool
  policies :: "policy list"

definition fresh_table :: table where
  "fresh_table = \<lparr>rls_enabled = False, policies = []\<rparr>"

fun exec :: "statement \<Rightarrow> table \<Rightarrow> table option" where
  \<comment> \<open>\<open>None\<close>: the statement fails (a policy of that name exists) and the migration aborts\<close>
  "exec DDL t = Some t"
| "exec ENABLE_ROW_LEVEL_SECURITY t = Some (t\<lparr>rls_enabled := True\<rparr>)"
| "exec (CREATE_POLICY p) t =
     (if policy_name p \<in> set (map policy_name (policies t)) then None
      else Some (t\<lparr>policies := policies t @ [p]\<rparr>))"
| "exec (DROP_POLICY_IF_EXISTS n) t =
     Some (t\<lparr>policies := filter (\<lambda>p. policy_name p \<noteq> n) (policies t)\<rparr>)"

fun run :: "statement list \<Rightarrow> table \<Rightarrow> table option" where
  "run [] t = Some t"
| "run (st # sts) t = (case exec st t of None \<Rightarrow> None | Some t' \<Rightarrow> run sts t')"

definition anyone_can_view :: policy where
  "anyone_can_view =
     \<lparr>policy_name = ''Anyone can view products'', policy_for = FOR SELECT,
      policy_to = PUBLIC, using_expr = Some TRUE, with_check = None\<rparr>"

definition anyone_can_create :: policy where
  "anyone_can_create =
     \<lparr>policy_name = ''Anyone can create products'', policy_for = FOR INSERT,
      policy_to = PUBLIC, using_expr = None, with_check = Some TRUE\<rparr>"

definition authenticated_can_view :: policy where
  "authenticated_can_view =
     \<lparr>policy_name = ''Authenticated can view products'', policy_for = FOR SELECT,
      policy_to = TO authenticated, using_expr = Some TRUE, with_check = None\<rparr>"

definition authenticated_can_create :: policy where
  "authenticated_can_create =
     \<lparr>policy_name = ''Authenticated can create products'', policy_for = FOR INSERT,
      policy_to = TO authenticated, using_expr = None,
      with_check = Some OWNER_ID_EQ_AUTH_UID\<rparr>"

definition authenticated_can_update :: policy where
  "authenticated_can_update =
     \<lparr>policy_name = ''Authenticated can update products'', policy_for = FOR UPDATE,
      policy_to = TO authenticated, using_expr = Some OWNER_ID_EQ_AUTH_UID,
      with_check = Some OWNER_ID_EQ_AUTH_UID\<rparr>"

definition migration_20260213160631 :: "statement list" where
  "migration_20260213160631 =
     [DDL,
      ENABLE_ROW_LEVEL_SECURITY,
      CREATE_POLICY anyone_can_view,
      CREATE_POLICY anyone_can_create]"

definition migration_20260215193000 :: "statement list" where
  "migration_20260215193000 =
     [DDL,
      ENABLE_ROW_LEVEL_SECURITY,
      DROP_POLICY_IF_EXISTS ''Authenticated can view products'',
      DROP_POLICY_IF_EXISTS ''Authenticated can create products'',
      DROP_POLICY_IF_EXISTS ''Authenticated can update products'',
      CREATE_POLICY authenticated_can_view,
      CREATE_POLICY authenticated_can_create,
      CREATE_POLICY authenticated_can_update]"

definition products :: table where
  \<comment> \<open>the table after both migrations\<close>
  "products =
     (case run (migration_20260213160631 @ migration_20260215193000) fresh_table of
        Some t \<Rightarrow> t
      | None \<Rightarrow> fresh_table)"

definition products_second_migration_only :: table where
  \<comment> \<open>for comparison: the policies the second migration creates, on their own\<close>
  "products_second_migration_only =
     (case run migration_20260215193000 fresh_table of
        Some t \<Rightarrow> t
      | None \<Rightarrow> fresh_table)"

subsection \<open>How PostgreSQL applies policies\<close>

text \<open>
  SQL expressions are three-valued: a comparison with NULL is NULL, and a policy
  expression admits a row only when it is true. All policies here are permissive, so
  they are combined with OR; with row-level security enabled and no applicable policy
  the row is denied. An \<open>UPDATE\<close> checks the existing row against \<open>USING\<close> and the new
  row against \<open>WITH CHECK\<close> (against \<open>USING\<close> when the policy has no \<open>WITH CHECK\<close>); an
  \<open>UPDATE\<close> or \<open>DELETE\<close> with a \<open>WHERE\<close> clause also needs the \<open>SELECT\<close> policies to
  admit the rows it reads, and the client addresses rows by \<open>.eq('id', ...)\<close>.
\<close>

fun eval :: "expr \<Rightarrow> caller \<Rightarrow> product_row \<Rightarrow> bool option" where
  "eval TRUE c r = Some True"
| "eval OWNER_ID_EQ_AUTH_UID c r =
     (case owner_id r of
        None \<Rightarrow> None
      | Some owner \<Rightarrow> (case auth_uid c of None \<Rightarrow> None | Some uid \<Rightarrow> Some (owner = uid)))"

definition admits :: "expr option \<Rightarrow> caller \<Rightarrow> product_row \<Rightarrow> bool" where
  \<comment> \<open>an absent clause restricts nothing\<close>
  "admits e c r = (case e of None \<Rightarrow> True | Some x \<Rightarrow> eval x c r = Some True)"

definition applies :: "policy \<Rightarrow> caller \<Rightarrow> command \<Rightarrow> bool" where
  "applies p c cmd =
     ((policy_for p = FOR_ALL \<or> policy_for p = FOR cmd)
      \<and> (policy_to p = PUBLIC \<or> policy_to p = TO (caller_role c)))"

definition check_expr :: "policy \<Rightarrow> expr option" where
  "check_expr p = (case with_check p of Some e \<Rightarrow> Some e | None \<Rightarrow> using_expr p)"

definition using_admits :: "table \<Rightarrow> caller \<Rightarrow> command \<Rightarrow> product_row \<Rightarrow> bool" where
  "using_admits t c cmd r =
     (if rls_enabled t
      then list_ex (\<lambda>p. applies p c cmd \<and> admits (using_expr p) c r) (policies t)
      else True)"

definition check_admits :: "table \<Rightarrow> caller \<Rightarrow> command \<Rightarrow> product_row \<Rightarrow> bool" where
  "check_admits t c cmd r =
     (if rls_enabled t
      then list_ex (\<lambda>p. applies p c cmd \<and> admits (check_expr p) c r) (policies t)
      else True)"

definition select_permitted :: "table \<Rightarrow> caller \<Rightarrow> product_row \<Rightarrow> bool" where
  "select_permitted t c r = using_admits t c SELECT r"

definition insert_permitted :: "table \<Rightarrow> caller \<Rightarrow> product_row \<Rightarrow> bool" where
  "insert_permitted t c r = check_admits t c INSERT r"

definition update_permitted ::
  "table \<Rightarrow> caller \<Rightarrow> product_row \<Rightarrow> product_row \<Rightarrow> bool" where
  "update_permitted t c old new =
     (using_admits t c SELECT old \<and> using_admits t c UPDATE old
      \<and> check_admits t c UPDATE new \<and> using_admits t c SELECT new)"

definition delete_permitted :: "table \<Rightarrow> caller \<Rightarrow> product_row \<Rightarrow> bool" where
  "delete_permitted t c r = (using_admits t c SELECT r \<and> using_admits t c DELETE r)"

definition owner_id_column :: "(jsstring \<Rightarrow> uuid option) \<Rightarrow> jsobject \<Rightarrow> uuid option" where
  \<comment> \<open>the \<open>owner_id\<close> of the row an inserted object becomes: the column has no default, so
      an object without the key gives NULL; the first argument reads a uuid from text\<close>
  "owner_id_column parse_uuid obj =
     (case map_of obj ''owner_id'' of
        Some (Str text) \<Rightarrow> parse_uuid text
      | _ \<Rightarrow> None)"

section \<open>Example inputs\<close>

definition example_form :: formData where
  "example_form =
     \<lparr>title = js ''Scientific Calculator'', description = js ''Works well'',
      category = js ''Electronics'', condition = js ''Used'', price = js ''1200'',
      imageUrl = [], sellerName = js ''Rahul Kumar'', sellerPhone = js ''09876543210''\<rparr>"

definition example_state :: sell_state where
  "example_state =
     \<lparr>step = 3, loading = False, imageFile = None, countryCode = js ''+91'',
      formData = example_form\<rparr>"

definition accepting_world :: world where
  "accepting_world =
     \<lparr>stamp = js ''1700000000000-k3x9'', toLowerCase = (\<lambda>name. name),
      upload = (\<lambda>key f. None), getPublicUrl = (\<lambda>key. js ''https://cdn/'' @ key),
      insert_products = (\<lambda>row. None)\<rparr>"

definition rejecting_world :: world where
  "rejecting_world =
     accepting_world
       \<lparr>insert_products :=
          (\<lambda>row. Some (Error (js ''new row violates row-level security policy'')))\<rparr>"

definition failing_upload_world :: world where
  "failing_upload_world = accepting_world\<lparr>upload := (\<lambda>key f. Some (js ''Bucket not found''))\<rparr>"

definition example_image :: image_file where
  "example_image = \<lparr>file_name = js ''photo.PNG'', file_type = js ''image/png''\<rparr>"

definition edited_form :: formData where
  \<comment> \<open>the edit form after the seller typed a local number into the phone field\<close>
  "edited_form = example_form\<lparr>sellerPhone := js ''9876543210''\<rparr>"

definition alice :: caller where
  "alice = \<lparr>caller_role = authenticated, auth_uid = Some 1\<rparr>"

definition visitor :: caller where
  "visitor = \<lparr>caller_role = anon, auth_uid = None\<rparr>"

definition row_of_alice :: product_row where
  "row_of_alice = \<lparr>owner_id = Some 1\<rparr>"

definition row_of_bob :: product_row where
  "row_of_bob = \<lparr>owner_id = Some 2\<rparr>"

definition legacy_row :: product_row where
  "legacy_row = \<lparr>owner_id = None\<rparr>"

section \<open>Facts about the string primitives\<close>

lemma digit_not_ws: "is_digit c \<Longrightarrow> \<not> is_ws c"
  unfolding is_ws_def is_digit_def by unat_arith

lemma plus_not_ws: "\<not> is_ws plus_sign"
  by (simp add: is_ws_def plus_sign_def)

lemma plus_not_digit: "\<not> is_digit plus_sign"
  by (simp add: is_digit_def plus_sign_def)

lemma startsWith_take: "startsWith s p = (take (length p) s = p)"
  by (induction s p rule: startsWith.induct) auto

lemma startsWith_single: "startsWith s [p] = (case s of [] \<Rightarrow> False | c # cs \<Rightarrow> c = p)"
  by (cases s) simp_all

lemma dropWhile_ws_digits: "list_all is_digit ds \<Longrightarrow> dropWhile is_ws ds = ds"
  by (cases ds) (simp_all add: digit_not_ws)

lemma trim_plus_digits:
  assumes "list_all is_digit ds"
  shows "trim (plus_sign # ds) = plus_sign # ds"
proof -
  have "dropWhile is_ws (rev ds @ [plus_sign]) = rev ds @ [plus_sign]"
  proof (cases "rev ds")
    case Nil
    then show ?thesis by (simp add: plus_not_ws)
  next
    case (Cons d rest)
    then have "d \<in> set ds" by (metis list.set_intros(1) set_rev)
    with assms have "is_digit d" by (simp add: list_all_iff)
    with Cons show ?thesis by (simp add: digit_not_ws)
  qed
  then show ?thesis by (simp add: trim_def plus_not_ws)
qed

lemma filter_digits_id: "list_all is_digit ds \<Longrightarrow> filter is_digit ds = ds"
  by (induction ds) simp_all

lemma list_all_strip_non_digits: "list_all is_digit (strip_non_digits s)"
  by (simp add: strip_non_digits_def list_all_iff)

lemma list_all_strip_leading_zeros:
  "list_all is_digit s \<Longrightarrow> list_all is_digit (strip_leading_zeros s)"
  unfolding strip_leading_zeros_def list_all_iff by (auto dest: set_dropWhileD)

lemma countryCodes_dial: "list_all is_dial_code countryCodes"
  by (simp add: countryCodes_def js_def is_dial_code_def is_digit_def plus_sign_def)

section \<open>Phone normalization: results\<close>

lemma normalizePhone_plus_digits:
  assumes "list_all is_digit ds"
  shows "normalizePhone cc (plus_sign # ds) = plus_sign # ds"
  using assms
  by (simp add: normalizePhone_def trim_plus_digits strip_non_digits_def plus_not_digit
      filter_digits_id)

lemma normalizePhone_empty: "normalizePhone cc [] = []"
  by (simp add: normalizePhone_def trim_def)

lemma normalizePhone_shape:
  assumes "is_dial_code cc"
  shows "normalizePhone cc s = [] \<or>
         (\<exists>ds. normalizePhone cc s = plus_sign # ds \<and> list_all is_digit ds)"
proof -
  from assms obtain cs where cc: "cc = plus_sign # cs" and cs: "list_all is_digit cs"
    by (auto simp: is_dial_code_def split: list.splits)
  have d: "list_all is_digit (strip_leading_zeros (strip_non_digits (trim s)))"
    by (simp add: list_all_strip_leading_zeros list_all_strip_non_digits)
  show ?thesis
    using cs d
    by (auto simp: normalizePhone_def Let_def cc list_all_strip_non_digits)
qed

lemma normalizePhone_fixpoint:
  assumes "is_dial_code cc"
  shows "normalizePhone cc' (normalizePhone cc s) = normalizePhone cc s"
  using normalizePhone_shape [OF assms, of s]
  by (auto simp: normalizePhone_empty normalizePhone_plus_digits)

lemma normalizePhone_refines_spec:
  "normalizePhone (plus_sign # ds) raw = normalizePhone_spec (plus_sign # ds) raw"
  by (cases "trim raw")
     (simp_all add: normalizePhone_def normalizePhone_spec_def Let_def startsWith_take
        strip_non_digits_def strip_leading_zeros_def replace_first_plus_def
        code_digits_spec_def plus_not_digit)

lemma normalizePhone_examples:
  "normalizePhone (js ''+91'') (js ''+91 98765-43210'') = js ''+919876543210''"
  "normalizePhone (js ''+91'') (js ''919876543210'') = js ''+919876543210''"
  "normalizePhone (js ''+91'') (js ''09876543210'') = js ''+919876543210''"
  "normalizePhone (js ''+91'') (js ''   '') = []"
  by (simp_all add: normalizePhone_def js_def trim_def is_ws_def plus_sign_def digit_zero_def
      strip_non_digits_def strip_leading_zeros_def replace_first_plus_def is_digit_def)

text \<open>
  Both results need the country code to start with its plus sign, as every entry of
  \<open>countryCodes\<close> does. For other strings the function neither follows the worded
  algorithm nor is idempotent.
\<close>

lemma normalizePhone_spec_needs_leading_plus:
  "normalizePhone (js ''1+'') (js ''15'') \<noteq> normalizePhone_spec (js ''1+'') (js ''15'')"
  by (simp add: normalizePhone_def normalizePhone_spec_def code_digits_spec_def js_def
      trim_def is_ws_def plus_sign_def digit_zero_def strip_non_digits_def
      strip_leading_zeros_def replace_first_plus_def is_digit_def)

lemma normalizePhone_not_idempotent_without_plus:
  "normalizePhone (js ''91'') (normalizePhone (js ''91'') (js ''5''))
     \<noteq> normalizePhone (js ''91'') (js ''5'')"
  by (simp add: normalizePhone_def js_def trim_def is_ws_def plus_sign_def digit_zero_def
      strip_non_digits_def strip_leading_zeros_def replace_first_plus_def is_digit_def)

lemma dial_code_91: "is_dial_code (js ''+91'')"
  by (simp add: js_def is_dial_code_def is_digit_def plus_sign_def)

lemma local_number_not_normalized:
  "normalizePhone cc (js ''9876543210'') \<noteq> js ''9876543210''"
proof -
  let ?d = "js ''9876543210''"
  have t: "trim ?d = ?d"
    by (simp add: js_def trim_def is_ws_def)
  have d: "strip_leading_zeros (strip_non_digits ?d) = ?d"
    by (simp add: js_def strip_non_digits_def strip_leading_zeros_def is_digit_def
        digit_zero_def)
  have ne: "?d \<noteq> []" "\<not> startsWith ?d [plus_sign]"
    by (simp_all add: js_def plus_sign_def)
  have n: "normalizePhone cc ?d =
      (if startsWith ?d (replace_first_plus cc) then plus_sign # ?d else cc @ ?d)"
    by (simp add: normalizePhone_def t d ne Let_def)
  show ?thesis
  proof (cases "startsWith ?d (replace_first_plus cc)")
    case True
    then show ?thesis unfolding n by (simp add: js_def plus_sign_def)
  next
    case False
    then have "cc \<noteq> []" by (auto simp: replace_first_plus_def)
    then have "length (cc @ ?d) \<noteq> length ?d" by simp
    then have "cc @ ?d \<noteq> ?d" by metis
    with False show ?thesis unfolding n by simp
  qed
qed

section \<open>The listing and edit forms: results\<close>

lemma insert_row_no_owner_id: "map_of (insert_row s url) ''owner_id'' = None"
  by (simp add: insert_row_def)

lemma stored_is_insert_row:
  "stored (handleSubmit w s) = Some row \<Longrightarrow> \<exists>url. row = insert_row s url"
  by (auto simp: handleSubmit_def submit_def split: sum.splits option.splits)

lemma example_submission:
  "resolve_image accepting_world example_state = Inr []"
  "resolve_image rejecting_world example_state = Inr []"
  "stored (handleSubmit accepting_world example_state) = Some (insert_row example_state [])"
  by (simp_all add: resolve_image_def handleSubmit_def submit_def accepting_world_def
      rejecting_world_def example_state_def example_form_def trim_def)

text \<open>
  The sell form sends a normalized phone: whatever code is selected later, normalizing
  the sent value again changes nothing.
\<close>

lemma insert_row_phone_normalized:
  "is_dial_code (countryCode s) \<Longrightarrow>
   map_of (insert_row s url) ''seller_phone'' = Some (Str p) \<Longrightarrow> normalizePhone cc p = p"
  by (auto simp: insert_row_def normalizePhone_fixpoint)

section \<open>Row-level security: results\<close>

lemmas policy_defs =
  anyone_can_view_def anyone_can_create_def authenticated_can_view_def
  authenticated_can_create_def authenticated_can_update_def

lemmas rls_defs =
  select_permitted_def insert_permitted_def update_permitted_def delete_permitted_def
  using_admits_def check_admits_def applies_def admits_def check_expr_def

lemmas example_defs =
  alice_def visitor_def row_of_alice_def row_of_bob_def legacy_row_def

text \<open>Both migrations run without error and leave five policies on the table.\<close>

lemma products_policies:
  "products =
     \<lparr>rls_enabled = True,
      policies = [anyone_can_view, anyone_can_create, authenticated_can_view,
                  authenticated_can_create, authenticated_can_update]\<rparr>"
  by (simp add: products_def migration_20260213160631_def migration_20260215193000_def
      fresh_table_def policy_defs)

lemma second_migration_policies:
  "products_second_migration_only =
     \<lparr>rls_enabled = True,
      policies = [authenticated_can_view, authenticated_can_create,
                  authenticated_can_update]\<rparr>"
  by (simp add: products_second_migration_only_def migration_20260215193000_def
      fresh_table_def policy_defs)

lemma select_always_permitted: "select_permitted products c r"
  by (simp add: products_policies rls_defs policy_defs)

lemma insert_always_permitted: "insert_permitted products c r"
  by (simp add: products_policies rls_defs policy_defs)

lemma delete_never_permitted: "\<not> delete_permitted products c r"
  by (simp add: products_policies rls_defs policy_defs)

lemma update_permitted_products:
  "update_permitted products c old new =
     (caller_role c = authenticated \<and> auth_uid c \<noteq> None
      \<and> owner_id old = auth_uid c \<and> owner_id new = auth_uid c)"
  by (cases "owner_id old"; cases "owner_id new"; cases "auth_uid c")
     (auto simp add: products_policies rls_defs policy_defs)

text \<open>
  The policy the second migration creates for \<open>INSERT\<close> does what its header announces
  ("Restrict insert to the signed-in owner") only where no other \<open>INSERT\<close> policy exists:
  on its own it admits exactly the rows owned by the caller.
\<close>

lemma insert_second_migration_only:
  "insert_permitted products_second_migration_only
     \<lparr>caller_role = authenticated, auth_uid = Some u\<rparr> r = (owner_id r = Some u)"
  by (cases "owner_id r") (simp_all add: second_migration_policies rls_defs policy_defs)

section \<open>The claims\<close>

text \<open>
  C1. Claimed: an authenticated caller's insert is permitted if and only if the row's
  \<open>owner_id\<close> equals the caller's identity. The table does not behave so: the policy
  "Anyone can create products" of the first migration is never dropped, applies to every
  role and admits every row, so the insert of a row owned by somebody else, and of a row
  with a NULL owner, is permitted.
\<close>

theorem insert_of_foreign_owner_permitted:
  "insert_permitted products alice row_of_bob \<and> insert_permitted products alice legacy_row
   \<and> owner_id row_of_bob \<noteq> auth_uid alice \<and> owner_id legacy_row \<noteq> auth_uid alice"
  by (simp add: insert_always_permitted example_defs)

text \<open>
  C2. Claimed: the record a successful submission hands to the store carries the
  \<open>owner_id\<close> of the session. The object built by \<open>handleSubmit\<close> has no \<open>owner_id\<close> key
  at all, so the stored row's \<open>owner_id\<close> is NULL for every submission.
\<close>

theorem submitted_row_has_no_owner_id:
  "stored (handleSubmit w s) = Some row \<Longrightarrow>
   map_of row ''owner_id'' = None \<and> owner_id_column parse_uuid row = None"
  by (auto dest!: stored_is_insert_row simp: insert_row_no_owner_id owner_id_column_def)

theorem submitted_row_has_no_owner_id_witness:
  "stored (handleSubmit accepting_world example_state) = Some (insert_row example_state [])
   \<and> map_of (insert_row example_state []) ''owner_id'' = None
   \<and> owner_id_column (\<lambda>text. Some 1) (insert_row example_state []) = None"
proof -
  have h: "stored (handleSubmit accepting_world example_state)
             = Some (insert_row example_state [])"
    by (rule example_submission)
  show ?thesis
    using h submitted_row_has_no_owner_id [OF h, of "\<lambda>text. Some 1"] by simp
qed

text \<open>
  C3. For an authenticated caller with identity \<open>u\<close>, an update is permitted if and only
  if the existing row's \<open>owner_id\<close> is \<open>u\<close> and the new row's \<open>owner_id\<close> is \<open>u\<close>.
\<close>

theorem update_permitted_iff_owner:
  "update_permitted products \<lparr>caller_role = authenticated, auth_uid = Some u\<rparr> old new
     = (owner_id old = Some u \<and> owner_id new = Some u)"
  by (simp add: update_permitted_products)

text \<open>
  C4. A row whose \<open>owner_id\<close> is NULL is never updatable, whoever the caller is and
  whatever the new row.
\<close>

theorem null_owner_never_updatable:
  "owner_id old = None \<Longrightarrow> \<not> update_permitted products c old new"
  by (auto simp add: update_permitted_products)

theorem null_owner_never_updatable_witness:
  "owner_id legacy_row = None \<and> \<not> update_permitted products alice legacy_row row_of_alice"
proof -
  have h: "owner_id legacy_row = None" by (simp add: legacy_row_def)
  show ?thesis using h null_owner_never_updatable [OF h, of alice row_of_alice] by simp
qed

text \<open>
  C5. Claimed: every operation of an unauthenticated caller is rejected. As stated this
  fails: "Anyone can view products" is granted to every role, so a caller without a
  session reads every row. What holds: for an unauthenticated caller select is permitted,
  update and delete are rejected.
\<close>

theorem unauthenticated_select_permitted:
  "caller_role visitor = anon \<and> select_permitted products visitor legacy_row"
  by (simp add: select_always_permitted visitor_def)

theorem unauthenticated_access:
  "caller_role c = anon \<Longrightarrow>
   select_permitted products c r \<and> \<not> update_permitted products c old new
   \<and> \<not> delete_permitted products c r"
  by (simp add: update_permitted_products select_always_permitted delete_never_permitted)

theorem unauthenticated_access_witness:
  "caller_role visitor = anon \<and> select_permitted products visitor row_of_alice
   \<and> \<not> update_permitted products visitor row_of_alice row_of_alice
   \<and> \<not> delete_permitted products visitor row_of_alice"
proof -
  have h: "caller_role visitor = anon" by (simp add: visitor_def)
  show ?thesis
    using h unauthenticated_access [OF h, of row_of_alice row_of_alice row_of_alice]
    by simp
qed

text \<open>
  C6. For every country code (a plus sign followed by the rest of the code) and every
  raw input, \<open>normalizePhone\<close> returns what the five-step algorithm of the specification
  returns.
\<close>

theorem normalizePhone_follows_spec:
  "normalizePhone (plus_sign # ds) rawPhone = normalizePhone_spec (plus_sign # ds) rawPhone"
  by (rule normalizePhone_refines_spec)

text \<open>
  C7. Claimed: every record written by the sell form or the edit modal has a normalized
  \<open>seller_phone\<close>. The sell form normalizes (\<open>insert_row_phone_normalized\<close>), the edit
  modal does not: \<open>handleSave\<close> sends the field as typed, and a local number is stored
  that no country code normalizes to itself.
\<close>

theorem handleSave_stores_raw_phone:
  "updated (handleSave (\<lambda>payload. None) \<lparr>saving = False, edit_formData = edited_form\<rparr>)
     = Some (update_payload edited_form)
   \<and> map_of (update_payload edited_form) ''seller_phone'' = Some (Str (js ''9876543210''))
   \<and> normalizePhone cc (js ''9876543210'') \<noteq> js ''9876543210''"
  by (simp add: handleSave_def update_payload_def edited_form_def
      local_number_not_normalized)

text \<open>
  C8. Back is always possible from a step greater than 1. Next from step 1 leaves the
  step at 1 exactly when title, description or category is empty, and otherwise moves to
  step 2; Next from step 2 leaves the step at 2 exactly when price or condition is
  empty, and otherwise moves to step 3; on step 3 Publish does nothing while the seller
  name or phone is empty.
\<close>

theorem step_navigation:
  "(1 < step s \<longrightarrow> click_back s = s\<lparr>step := step s - 1\<rparr>)
   \<and> (step s = 1 \<longrightarrow>
        (step (click_next s) = 1) =
          (title (formData s) = [] \<or> description (formData s) = []
           \<or> category (formData s) = []))
   \<and> (step s = 1 \<and> title (formData s) \<noteq> [] \<and> description (formData s) \<noteq> []
      \<and> category (formData s) \<noteq> [] \<longrightarrow> click_next s = s\<lparr>step := 2\<rparr>)
   \<and> (step s = 2 \<longrightarrow>
        (step (click_next s) = 2) =
          (price (formData s) = [] \<or> condition (formData s) = []))
   \<and> (step s = 2 \<and> price (formData s) \<noteq> [] \<and> condition (formData s) \<noteq> []
        \<longrightarrow> click_next s = s\<lparr>step := 3\<rparr>)
   \<and> (step s = 3 \<and> (sellerName (formData s) = [] \<or> sellerPhone (formData s) = [])
        \<longrightarrow> click_publish w s = None)"
  by (simp add: click_back_def click_next_def next_disabled_def canProceedStep1_def
      canProceedStep2_def canProceedStep3_def truthy_def click_publish_def
      publish_disabled_def)

theorem step_navigation_witness:
  "click_back example_state = example_state\<lparr>step := 2\<rparr>
   \<and> step (click_next initial_state) = 1
   \<and> click_next (example_state\<lparr>step := 1\<rparr>) = example_state\<lparr>step := 2\<rparr>
   \<and> step (click_next (initial_state\<lparr>step := 2\<rparr>)) = 2
   \<and> click_next (example_state\<lparr>step := 2\<rparr>) = example_state
   \<and> click_publish accepting_world (initial_state\<lparr>step := 3\<rparr>) = None"
  using step_navigation [of example_state accepting_world]
    step_navigation [of initial_state accepting_world]
    step_navigation [of "example_state\<lparr>step := 1\<rparr>" accepting_world]
    step_navigation [of "initial_state\<lparr>step := 2\<rparr>" accepting_world]
    step_navigation [of "example_state\<lparr>step := 2\<rparr>" accepting_world]
    step_navigation [of "initial_state\<lparr>step := 3\<rparr>" accepting_world]
  by (simp add: example_state_def example_form_def initial_state_def initial_formData_def
      js_def)

text \<open>
  C9. When the upload or the insert is rejected, one alert with the error's text is
  shown, the form, the step, the chosen file and the country code stay as they were, and
  the modal stays open; when the insert succeeds, the form state is back at its
  defaults on step 1 and the modal is closed.
\<close>

theorem handleSubmit_outcome:
  "(resolve_image w s = Inl e \<longrightarrow>
      alerts (handleSubmit w s) = [alert_text e]
      \<and> next_state (handleSubmit w s) = s\<lparr>loading := False\<rparr>
      \<and> \<not> onClose_called (handleSubmit w s))
   \<and> (resolve_image w s = Inr url \<and> insert_products w (insert_row s url) = Some e \<longrightarrow>
      alerts (handleSubmit w s) = [alert_text e]
      \<and> next_state (handleSubmit w s) = s\<lparr>loading := False\<rparr>
      \<and> \<not> onClose_called (handleSubmit w s))
   \<and> (resolve_image w s = Inr url \<and> insert_products w (insert_row s url) = None \<longrightarrow>
      next_state (handleSubmit w s) = initial_state
      \<and> alerts (handleSubmit w s) = []
      \<and> stored (handleSubmit w s) = Some (insert_row s url)
      \<and> onSuccess_called (handleSubmit w s) \<and> onClose_called (handleSubmit w s))"
  by (simp add: handleSubmit_def submit_def initial_state_def)

theorem handleSubmit_outcome_witness:
  "alerts (handleSubmit rejecting_world example_state)
     = [js ''new row violates row-level security policy'']
   \<and> next_state (handleSubmit rejecting_world example_state) = example_state
   \<and> \<not> onClose_called (handleSubmit rejecting_world example_state)
   \<and> alerts (handleSubmit failing_upload_world (example_state\<lparr>imageFile := Some example_image\<rparr>))
       = [js ''Bucket not found'' @ bucket_hint]
   \<and> next_state (handleSubmit accepting_world example_state) = initial_state
   \<and> onClose_called (handleSubmit accepting_world example_state)"
proof -
  let ?e = "Error (js ''new row violates row-level security policy'')"
  let ?s = "example_state\<lparr>imageFile := Some example_image\<rparr>"
  have r: "resolve_image rejecting_world example_state = Inr []"
    and a: "resolve_image accepting_world example_state = Inr []"
    by (rule example_submission)+
  have rej: "insert_products rejecting_world (insert_row example_state []) = Some ?e"
    by (simp add: rejecting_world_def)
  have acc: "insert_products accepting_world (insert_row example_state []) = None"
    by (simp add: accepting_world_def)
  have up: "resolve_image failing_upload_world ?s
              = Inl (Error (js ''Bucket not found'' @ bucket_hint))"
    by (simp add: resolve_image_def failing_upload_world_def)
  have l: "example_state\<lparr>loading := False\<rparr> = example_state"
    by (simp add: example_state_def)
  show ?thesis
    using handleSubmit_outcome [of rejecting_world example_state ?e "[]"]
      handleSubmit_outcome [of accepting_world example_state ?e "[]"]
      handleSubmit_outcome [of failing_upload_world ?s
        "Error (js ''Bucket not found'' @ bucket_hint)" "[]"]
      r a rej acc up l
    by (simp add: alert_text_def)
qed

text \<open>
  C10. For every country code (a plus sign followed by digits), normalizing twice gives
  what normalizing once gives; so the row sent after the phone field lost focus is the
  row sent without that, and the country code is never put in front twice.
\<close>

theorem normalizePhone_idempotent:
  "is_dial_code cc \<Longrightarrow>
   normalizePhone cc (normalizePhone cc rawPhone) = normalizePhone cc rawPhone
   \<and> (countryCode s = cc \<longrightarrow> insert_row (blur_sellerPhone s) url = insert_row s url)"
  by (auto simp: normalizePhone_fixpoint insert_row_def blur_sellerPhone_def)

theorem normalizePhone_idempotent_witness:
  "is_dial_code (js ''+91'')
   \<and> normalizePhone (js ''+91'') (js ''09876543210'') = js ''+919876543210''
   \<and> normalizePhone (js ''+91'') (js ''+919876543210'') = js ''+919876543210''
   \<and> insert_row (blur_sellerPhone example_state) [] = insert_row example_state []"
proof -
  have h: "is_dial_code (js ''+91'')" by (rule dial_code_91)
  have c: "countryCode example_state = js ''+91''" by (simp add: example_state_def)
  show ?thesis
    using h c normalizePhone_idempotent [OF h, of "js ''09876543210''" example_state "[]"]
    by (simp add: normalizePhone_examples)
qed

end
